theory Spec2Isabelle
  imports Complex_Main "HOL-Library.Sublist"
begin

section \<open>The transcription session controller (hooks/useTranscriber)\<close>

text \<open>
  The hook \<^verbatim>\<open>useTranscriber\<close> keeps its state in \<^verbatim>\<open>useState\<close> cells, reacts to
  worker messages in one \<^verbatim>\<open>switch\<close>, and talks to the worker through
  \<^verbatim>\<open>webWorker.postMessage\<close>. The embedding keeps every cell as a field of one record,
  writes each callback as the list of setter calls and sends it performs, in program
  order, and runs the \<^verbatim>\<open>useEffect\<close> bodies whose dependencies changed after the
  setters have been applied.

  JavaScript numbers (progress values, timestamps, audio samples) are the type
  parameter \<open>'n\<close>: the controller only stores and forwards them, and the few
  operations the code applies to them are passed in explicitly.
\<close>

subsection \<open>Data model\<close>

record 'n ProgressItem =
  "file" :: string
  loaded :: 'n
  progress :: 'n
  total :: 'n
  name :: string
  status :: string

record 'n Chunk =
  "text" :: string
  timestamp :: "'n \<times> 'n option"

text \<open>The payload \<^verbatim>\<open>data\<close> of an \<^verbatim>\<open>update\<close> or \<^verbatim>\<open>complete\<close> message.\<close>

record 'n TranscriberUpdateData =
  "text" :: string
  chunks :: "'n Chunk list"
  tps :: 'n

record 'n TranscriberData =
  isBusy :: bool
  tps :: "'n option"
  "text" :: string
  chunks :: "'n Chunk list"

text \<open>
  An \<^verbatim>\<open>AudioBuffer\<close> of the Web Audio API: \<open>frames\<close> is its \<^verbatim>\<open>length\<close> property (the
  number of sample frames), \<open>channelData\<close> holds one \<^verbatim>\<open>Float32Array\<close> per channel.
  The API only builds buffers with at least one channel, every channel holding
  \<open>frames\<close> samples, and \<^verbatim>\<open>getChannelData\<close> throws \<^verbatim>\<open>IndexSizeError\<close> for a channel
  that does not exist.
\<close>

record 'n AudioBuffer =
  frames :: nat
  channelData :: "'n list list"

definition numberOfChannels :: "'n AudioBuffer \<Rightarrow> nat" where
  "numberOfChannels b = length (channelData b)"

definition getChannelData :: "'n AudioBuffer \<Rightarrow> nat \<Rightarrow> 'n list option" where
  "getChannelData b k = (if k < numberOfChannels b then Some (channelData b ! k) else None)"

definition wf_AudioBuffer :: "'n AudioBuffer \<Rightarrow> bool" where
  "wf_AudioBuffer b \<longleftrightarrow>
     channelData b \<noteq> [] \<and> list_all (\<lambda>c. length c = frames b) (channelData b)"

text \<open>Requests sent to the worker, and the messages it sends back (by \<^verbatim>\<open>status\<close>).\<close>

record 'n TranscribeRequest =
  audio :: "'n list"
  model :: string
  dtype :: string
  gpu :: bool
  subtask :: "string option"
  language :: "string option"

datatype 'n WorkerRequest =
    CheckModel string string bool
  | DownloadModel string string bool
  | Transcribe "'n TranscribeRequest"

datatype 'n WorkerMessage =
    Progress string 'n
  | Update "'n TranscriberUpdateData"
  | Complete "'n TranscriberUpdateData"
  | Initiate "'n ProgressItem"
  | Ready
  | ModelReady
  | ModelCheckComplete
  | Error string
  | Done string
  | Other string

text \<open>
  The state of the hook: the \<^verbatim>\<open>useState\<close> cells, then what has left the hook so far:
  \<open>posted\<close> are the requests handed to \<^verbatim>\<open>webWorker.postMessage\<close> and \<open>alerted\<close> the
  texts passed to \<^verbatim>\<open>alert\<close>, oldest first.
\<close>

record 'n Transcriber =
  transcript :: "'n TranscriberData option"
  isBusy :: bool
  isModelLoading :: bool
  isModelReady :: bool
  isCheckingModel :: bool
  progressItems :: "'n ProgressItem list"
  model :: string
  subtask :: string
  dtype :: string
  gpu :: bool
  language :: string
  posted :: "'n WorkerRequest list"
  alerted :: "string list"

subsection \<open>Setter calls and sends\<close>

datatype 'n Action =
    SetTranscript "'n TranscriberData option"
  | SetIsBusy bool
  | SetIsModelLoading bool
  | SetIsModelReady bool
  | SetIsCheckingModel bool
  | SetProgressItems "'n ProgressItem list \<Rightarrow> 'n ProgressItem list"
  | SetModel string
  | SetSubtask string
  | SetDtype string
  | SetGPU bool
  | SetLanguage string
  | PostMessage "'n WorkerRequest"
  | Alert string

fun exec :: "'n Action \<Rightarrow> 'n Transcriber \<Rightarrow> 'n Transcriber" where
  "exec (SetTranscript t) s = s\<lparr>transcript := t\<rparr>"
| "exec (SetIsBusy b) s = s\<lparr>Transcriber.isBusy := b\<rparr>"
| "exec (SetIsModelLoading b) s = s\<lparr>isModelLoading := b\<rparr>"
| "exec (SetIsModelReady b) s = s\<lparr>isModelReady := b\<rparr>"
| "exec (SetIsCheckingModel b) s = s\<lparr>isCheckingModel := b\<rparr>"
| "exec (SetProgressItems f) s = s\<lparr>progressItems := f (progressItems s)\<rparr>"
| "exec (SetModel m) s = s\<lparr>Transcriber.model := m\<rparr>"
| "exec (SetSubtask t) s = s\<lparr>Transcriber.subtask := t\<rparr>"
| "exec (SetDtype d) s = s\<lparr>Transcriber.dtype := d\<rparr>"
| "exec (SetGPU g) s = s\<lparr>Transcriber.gpu := g\<rparr>"
| "exec (SetLanguage l) s = s\<lparr>Transcriber.language := l\<rparr>"
| "exec (PostMessage r) s = s\<lparr>posted := posted s @ [r]\<rparr>"
| "exec (Alert a) s = s\<lparr>alerted := alerted s @ [a]\<rparr>"

definition run :: "'n Action list \<Rightarrow> 'n Transcriber \<Rightarrow> 'n Transcriber" where
  "run acts s = fold exec acts s"

text \<open>
  \<^verbatim>\<open>useEffect(() => { setIsModelReady(false); }, [model, dtype, gpu])\<close>: after a render,
  the body runs when one of the three dependencies differs from the previous render.
\<close>

definition readinessResetEffect :: "'n Transcriber \<Rightarrow> 'n Transcriber \<Rightarrow> 'n Action list" where
  "readinessResetEffect old new =
     (if Transcriber.model new \<noteq> Transcriber.model old
         \<or> Transcriber.dtype new \<noteq> Transcriber.dtype old
         \<or> Transcriber.gpu new \<noteq> Transcriber.gpu old
      then [SetIsModelReady False] else [])"

definition commit :: "'n Action list \<Rightarrow> 'n Transcriber \<Rightarrow> 'n Transcriber" where
  "commit acts s = (let s' = run acts s in run (readinessResetEffect s s') s')"

subsection \<open>The worker message handler\<close>

definition errorAlertText :: "string \<Rightarrow> string" where
  "errorAlertText m =
     ''An error occurred: '' @ [CHR 0x22] @ m @ [CHR 0x22] @ ''. Please file a bug report.''"

fun onmessage :: "'n WorkerMessage \<Rightarrow> 'n Action list" where
  "onmessage (Progress f p) =
     [SetProgressItems (map (\<lambda>item. if file item = f then item\<lparr>progress := p\<rparr> else item))]"
| "onmessage (Update d) =
     [SetTranscript (Some \<lparr>TranscriberData.isBusy = True,
                           tps = Some (TranscriberUpdateData.tps d),
                           text = TranscriberUpdateData.text d,
                           chunks = TranscriberUpdateData.chunks d\<rparr>),
      SetIsBusy True]"
| "onmessage (Complete d) =
     [SetTranscript (Some \<lparr>TranscriberData.isBusy = False,
                           tps = Some (TranscriberUpdateData.tps d),
                           text = TranscriberUpdateData.text d,
                           chunks = TranscriberUpdateData.chunks d\<rparr>),
      SetIsBusy False]"
| "onmessage (Initiate item) =
     [SetIsModelLoading True, SetProgressItems (\<lambda>prev. prev @ [item])]"
| "onmessage Ready = [SetIsModelLoading False]"
| "onmessage ModelReady =
     [SetIsModelLoading False, SetIsModelReady True, SetIsCheckingModel False]"
| "onmessage ModelCheckComplete = [SetIsCheckingModel False]"
| "onmessage (Error m) =
     [SetIsBusy False, SetIsModelLoading False, SetIsCheckingModel False,
      Alert (errorAlertText m)]"
| "onmessage (Done f) = [SetProgressItems (filter (\<lambda>item. file item \<noteq> f))]"
| "onmessage (Other st) = []"

definition receive :: "'n WorkerMessage \<Rightarrow> 'n Transcriber \<Rightarrow> 'n Transcriber" where
  "receive msg s = commit (onmessage msg) s"

definition receiveAll :: "'n WorkerMessage list \<Rightarrow> 'n Transcriber \<Rightarrow> 'n Transcriber" where
  "receiveAll msgs s = fold receive msgs s"

subsection \<open>Configuration setters\<close>

definition setModel :: "string \<Rightarrow> 'n Transcriber \<Rightarrow> 'n Transcriber" where
  "setModel m s = commit [SetModel m] s"

definition setDtype :: "string \<Rightarrow> 'n Transcriber \<Rightarrow> 'n Transcriber" where
  "setDtype d s = commit [SetDtype d] s"

definition setGPU :: "bool \<Rightarrow> 'n Transcriber \<Rightarrow> 'n Transcriber" where
  "setGPU g s = commit [SetGPU g] s"

definition setSubtask :: "string \<Rightarrow> 'n Transcriber \<Rightarrow> 'n Transcriber" where
  "setSubtask t s = commit [SetSubtask t] s"

definition setLanguage :: "string \<Rightarrow> 'n Transcriber \<Rightarrow> 'n Transcriber" where
  "setLanguage l s = commit [SetLanguage l] s"

subsection \<open>onInputChange and downloadModel\<close>

definition onInputChange :: "'n Transcriber \<Rightarrow> 'n Transcriber" where
  "onInputChange s = commit [SetTranscript None] s"

definition downloadModelRequest :: "'n Transcriber \<Rightarrow> 'n Action list" where
  "downloadModelRequest s =
     [SetIsModelReady False,
      PostMessage (DownloadModel (Transcriber.model s) (Transcriber.dtype s) (Transcriber.gpu s))]"

definition downloadModel :: "'n Transcriber \<Rightarrow> 'n Transcriber" where
  "downloadModel s = commit (downloadModelRequest s) s"

subsection \<open>start: audio mixdown and the transcribe request\<close>

text \<open>
  The arithmetic of the mixdown is JavaScript's: \<^verbatim>\<open>+\<close>, \<^verbatim>\<open>*\<close> and \<^verbatim>\<open>/\<close> on doubles,
  the constant \<^verbatim>\<open>Math.sqrt(2)\<close>, the literal \<^verbatim>\<open>2\<close>, and the conversion that a store into
  a \<^verbatim>\<open>Float32Array\<close> applies (\<open>fround\<close>). They are taken as parameters, together with
  the initial content \<open>zero\<close> of a fresh \<^verbatim>\<open>Float32Array\<close> and the value \<open>nan\<close> that an
  out-of-range read yields once it is used as a number.
\<close>

record 'n arith =
  fadd :: "'n \<Rightarrow> 'n \<Rightarrow> 'n"
  fmul :: "'n \<Rightarrow> 'n \<Rightarrow> 'n"
  fdiv :: "'n \<Rightarrow> 'n \<Rightarrow> 'n"
  sqrt2 :: 'n
  two :: 'n
  zero :: 'n
  nan :: 'n
  fround :: "'n \<Rightarrow> 'n"

text \<open>Reading \<^verbatim>\<open>xs[i]\<close> from a typed array as a number; storing \<^verbatim>\<open>xs[i] = v\<close> into it
  (a store past the end is ignored).\<close>

definition rd :: "'n arith \<Rightarrow> 'n list \<Rightarrow> nat \<Rightarrow> 'n" where
  "rd ar xs i = (if i < length xs then xs ! i else nan ar)"

definition wr :: "'n arith \<Rightarrow> 'n list \<Rightarrow> nat \<Rightarrow> 'n \<Rightarrow> 'n list" where
  "wr ar xs i v = (if i < length xs then xs[i := fround ar v] else xs)"

text \<open>\<^verbatim>\<open>for (let i = 0; i < audioData.length; ++i) audio[i] = (SCALING_FACTOR * (left[i] + right[i])) / 2\<close>\<close>

function mixLoop ::
  "'n arith \<Rightarrow> 'n list \<Rightarrow> 'n list \<Rightarrow> nat \<Rightarrow> nat \<Rightarrow> 'n list \<Rightarrow> 'n list" where
  "mixLoop ar left right n i out =
     (if i < n
      then mixLoop ar left right n (Suc i)
             (wr ar out i (fdiv ar (fmul ar (sqrt2 ar) (fadd ar (rd ar left i) (rd ar right i)))
                                  (two ar)))
      else out)"
  by pat_completeness auto
termination
  by (relation "measure (\<lambda>(ar, left, right, n, i, out). n - i)") auto

declare mixLoop.simps [simp del]

text \<open>Lines 194 to 208 of \<^verbatim>\<open>postRequest\<close>; \<open>None\<close> is the exception of \<^verbatim>\<open>getChannelData\<close>.\<close>

definition mixdown :: "'n arith \<Rightarrow> 'n AudioBuffer \<Rightarrow> 'n list option" where
  "mixdown ar audioData =
     (if numberOfChannels audioData = 2
      then (case getChannelData audioData 0 of
              None \<Rightarrow> None
            | Some left \<Rightarrow>
                (case getChannelData audioData 1 of
                   None \<Rightarrow> None
                 | Some right \<Rightarrow>
                     Some (mixLoop ar left right (frames audioData) 0
                             (replicate (length left) (zero ar)))))
      else getChannelData audioData 0)"

text \<open>\<^verbatim>\<open>String.prototype.endsWith\<close>.\<close>

definition endsWith :: "string \<Rightarrow> string \<Rightarrow> bool" where
  "endsWith s t \<longleftrightarrow> length t \<le> length s \<and> drop (length s - length t) s = t"

definition transcribeMessage :: "'n Transcriber \<Rightarrow> 'n list \<Rightarrow> 'n TranscribeRequest" where
  "transcribeMessage s a =
     \<lparr>audio = a,
      model = Transcriber.model s,
      dtype = Transcriber.dtype s,
      gpu = Transcriber.gpu s,
      subtask = (if \<not> endsWith (Transcriber.model s) ''.en''
                 then Some (Transcriber.subtask s) else None),
      language = (if \<not> endsWith (Transcriber.model s) ''.en'' \<and> Transcriber.language s \<noteq> ''auto''
                  then Some (Transcriber.language s) else None)\<rparr>"

text \<open>
  \<^verbatim>\<open>postRequest\<close>: nothing at all for an absent buffer; otherwise the two setter calls,
  then the mixdown, then the send. An exception in the mixdown ends the callback after
  the setter calls and before the send.
\<close>

definition postRequest ::
  "'n arith \<Rightarrow> 'n Transcriber \<Rightarrow> 'n AudioBuffer option \<Rightarrow> 'n Action list" where
  "postRequest ar s audioData =
     (case audioData of
        None \<Rightarrow> []
      | Some b \<Rightarrow>
          [SetTranscript None, SetIsBusy True] @
          (case mixdown ar b of
             None \<Rightarrow> []
           | Some a \<Rightarrow> [PostMessage (Transcribe (transcribeMessage s a))]))"

definition start :: "'n arith \<Rightarrow> 'n AudioBuffer option \<Rightarrow> 'n Transcriber \<Rightarrow> 'n Transcriber" where
  "start ar audioData s = commit (postRequest ar s audioData) s"

subsection \<open>Reading the progress list\<close>

text \<open>The file keys of the progress items, and how many items carry a given key.\<close>

definition files :: "'n Transcriber \<Rightarrow> string list" where
  "files s = map file (progressItems s)"

definition fileCount :: "string \<Rightarrow> 'n Transcriber \<Rightarrow> nat" where
  "fileCount f s = length (filter (\<lambda>item. file item = f) (progressItems s))"

text \<open>
  A message opens or closes the key \<open>f\<close> when it is an \<^verbatim>\<open>initiate\<close> or a \<^verbatim>\<open>done\<close> for \<open>f\<close>.
  A message sequence has fresh initiates when no \<^verbatim>\<open>initiate\<close> arrives for a key that
  still has an item.
\<close>

fun opensOrCloses :: "string \<Rightarrow> 'n WorkerMessage \<Rightarrow> bool" where
  "opensOrCloses f (Initiate item) = (file item = f)"
| "opensOrCloses f (Done g) = (g = f)"
| "opensOrCloses f msg = False"

fun initiatesFresh :: "'n WorkerMessage \<Rightarrow> 'n Transcriber \<Rightarrow> bool" where
  "initiatesFresh (Initiate item) s = (file item \<notin> set (files s))"
| "initiatesFresh msg s = True"

fun freshInitiates :: "'n WorkerMessage list \<Rightarrow> 'n Transcriber \<Rightarrow> bool" where
  "freshInitiates [] s = True"
| "freshInitiates (msg # msgs) s = (initiatesFresh msg s \<and> freshInitiates msgs (receive msg s))"

subsection \<open>Initial state and mount\<close>

text \<open>
  The module \<^verbatim>\<open>utils/Constants\<close> supplies the defaults of the configuration cells; its
  values for the session's interface language are the fields of this record.
\<close>

record Constants =
  defaultModel :: string
  DEFAULT_SUBTASK :: string
  DEFAULT_DTYPE :: string
  DEFAULT_GPU :: bool
  defaultLanguage :: string

definition initial :: "Constants \<Rightarrow> 'n Transcriber" where
  "initial c =
     \<lparr>transcript = None,
      isBusy = False,
      isModelLoading = False,
      isModelReady = False,
      isCheckingModel = True,
      progressItems = [],
      model = defaultModel c,
      subtask = DEFAULT_SUBTASK c,
      dtype = DEFAULT_DTYPE c,
      gpu = DEFAULT_GPU c,
      language = defaultLanguage c,
      posted = [],
      alerted = []\<rparr>"

text \<open>
  The three effects of the first render, in the order they are declared: the
  \<^verbatim>\<open>check_model\<close> request, the defaults for the interface language, the readiness
  reset. The interface language never changes afterwards (\<^verbatim>\<open>i18n.ts\<close> registers one
  language), so the second effect runs here only. \<^verbatim>\<open>postMessage\<close> is taken not to throw.
\<close>

definition mount :: "Constants \<Rightarrow> 'n Transcriber" where
  "mount c =
     (let s = initial c
      in commit
           [PostMessage (CheckModel (Transcriber.model s) (Transcriber.dtype s) (Transcriber.gpu s)),
            SetModel (defaultModel c), SetLanguage (defaultLanguage c), SetIsModelReady False,
            SetIsModelReady False] s)"

section \<open>The transcript component (components/Transcript)\<close>

text \<open>
  The component receives the controller's \<^verbatim>\<open>output\<close> as the property
  \<^verbatim>\<open>transcribedData\<close> and keeps the edits in \<^verbatim>\<open>editedChunks\<close>, an object keyed by chunk
  index.
\<close>

record 'n Transcript =
  transcribedData :: "'n TranscriberData option"
  editedChunks :: "nat \<rightharpoonup> string"
  editingChunk :: "nat option"

definition initialTranscript :: "'n Transcript" where
  "initialTranscript = \<lparr>transcribedData = None, editedChunks = Map.empty, editingChunk = None\<rparr>"

text \<open>
  The effect on \<^verbatim>\<open>[transcribedData?.chunks]\<close>: with a chunk list present it rebuilds the
  object from the chunk texts; without one its body does nothing.
\<close>

definition initialEditedChunks :: "'n Chunk list \<Rightarrow> (nat \<rightharpoonup> string)" where
  "initialEditedChunks cs =
     fold (\<lambda>(index, chunk) m. m(index \<mapsto> Chunk.text chunk)) (enumerate 0 cs) Map.empty"

definition overlayResetEffect ::
  "'n TranscriberData option \<Rightarrow> (nat \<rightharpoonup> string) \<Rightarrow> (nat \<rightharpoonup> string)" where
  "overlayResetEffect td ov =
     (case td of None \<Rightarrow> ov | Some d \<Rightarrow> initialEditedChunks (TranscriberData.chunks d))"

text \<open>A new value of the property arrives (every worker message carries a fresh chunk array).\<close>

definition setTranscribedData :: "'n TranscriberData option \<Rightarrow> 'n Transcript \<Rightarrow> 'n Transcript" where
  "setTranscribedData td v =
     v\<lparr>transcribedData := td, editedChunks := overlayResetEffect td (editedChunks v)\<rparr>"

definition handleTextChange :: "nat \<Rightarrow> string \<Rightarrow> 'n Transcript \<Rightarrow> 'n Transcript" where
  "handleTextChange chunkIndex newText v =
     v\<lparr>editedChunks := (editedChunks v)(chunkIndex \<mapsto> newText)\<rparr>"

text \<open>\<^verbatim>\<open>transcribedData?.chunks[chunkIndex]\<close>, and the operator \<^verbatim>\<open>??\<close>.\<close>

definition chunkAt :: "'n TranscriberData option \<Rightarrow> nat \<Rightarrow> 'n Chunk option" where
  "chunkAt td i =
     (case td of
        None \<Rightarrow> None
      | Some d \<Rightarrow>
          if i < length (TranscriberData.chunks d) then Some (TranscriberData.chunks d ! i)
          else None)"

definition nullish :: "'a option \<Rightarrow> 'a \<Rightarrow> 'a" where
  "nullish a b = (case a of Some x \<Rightarrow> x | None \<Rightarrow> b)"

definition getChunkText :: "'n Transcript \<Rightarrow> nat \<Rightarrow> string" where
  "getChunkText v chunkIndex =
     nullish (editedChunks v chunkIndex)
       (nullish (map_option Chunk.text (chunkAt (transcribedData v) chunkIndex)) [])"

definition isChunkEdited :: "'n Transcript \<Rightarrow> nat \<Rightarrow> bool" where
  "isChunkEdited v chunkIndex =
     (let originalText = nullish (map_option Chunk.text (chunkAt (transcribedData v) chunkIndex)) [];
          editedText = nullish (editedChunks v chunkIndex) originalText
      in originalText \<noteq> editedText)"

text \<open>What the component shows and exports from: \<^verbatim>\<open>transcribedData?.chunks ?? []\<close>.\<close>

definition currentChunks :: "'n Transcript \<Rightarrow> 'n Chunk list" where
  "currentChunks v = nullish (map_option TranscriberData.chunks (transcribedData v)) []"

definition overlayValid :: "'n Transcript \<Rightarrow> bool" where
  "overlayValid v \<longleftrightarrow> (\<forall>i \<in> dom (editedChunks v). i < length (currentChunks v))"

subsection \<open>JSON.stringify with an indentation\<close>

datatype 'n json =
    JNull
  | JNum 'n
  | JStr string
  | JArr "'n json list"
  | JObj "(string \<times> 'n json) list"

definition hexDigit :: "nat \<Rightarrow> char" where
  "hexDigit n = ''0123456789abcdef'' ! (n mod 16)"

definition quoteChar :: "char \<Rightarrow> string" where
  "quoteChar c =
     (if c = CHR 0x08 then [CHR 0x5C, CHR ''b'']
      else if c = CHR 0x09 then [CHR 0x5C, CHR ''t'']
      else if c = CHR 0x0A then [CHR 0x5C, CHR ''n'']
      else if c = CHR 0x0C then [CHR 0x5C, CHR ''f'']
      else if c = CHR 0x0D then [CHR 0x5C, CHR ''r'']
      else if c = CHR 0x22 then [CHR 0x5C, CHR 0x22]
      else if c = CHR 0x5C then [CHR 0x5C, CHR 0x5C]
      else if (of_char c :: nat) < 0x20
        then [CHR 0x5C, CHR ''u'', CHR ''0'', CHR ''0'',
              hexDigit (of_char c div 16), hexDigit (of_char c)]
      else [c])"

definition quoteJSONString :: "string \<Rightarrow> string" where
  "quoteJSONString s = [CHR 0x22] @ concat (map quoteChar s) @ [CHR 0x22]"

fun joinWith :: "string \<Rightarrow> string list \<Rightarrow> string" where
  "joinWith sep [] = []"
| "joinWith sep [x] = x"
| "joinWith sep (x # y # ys) = x @ sep @ joinWith sep (y # ys)"

text \<open>
  The serialisation of the language standard, for the values that occur here; \<open>num\<close>
  renders a number, \<open>gap\<close> is the indentation unit and \<open>indent\<close> the current one.
\<close>

fun serialize :: "('n \<Rightarrow> string) \<Rightarrow> string \<Rightarrow> string \<Rightarrow> 'n json \<Rightarrow> string" where
  "serialize num gap indent JNull = ''null''"
| "serialize num gap indent (JNum x) = num x"
| "serialize num gap indent (JStr s) = quoteJSONString s"
| "serialize num gap indent (JArr vs) =
     (let stepback = indent; indent' = indent @ gap;
          partial = map (serialize num gap indent') vs
      in if partial = [] then ''[]''
         else if gap = [] then ''['' @ joinWith '','' partial @ '']''
         else ''['' @ [CHR 0x0A] @ indent' @ joinWith ('','' @ [CHR 0x0A] @ indent') partial
              @ [CHR 0x0A] @ stepback @ '']'')"
| "serialize num gap indent (JObj kvs) =
     (let stepback = indent; indent' = indent @ gap;
          partial = map (\<lambda>(k, v). quoteJSONString k @ '':'' @ (if gap \<noteq> [] then '' '' else [])
                                     @ serialize num gap indent' v) kvs
      in if partial = [] then ''{}''
         else if gap = [] then ''{'' @ joinWith '','' partial @ ''}''
         else ''{'' @ [CHR 0x0A] @ indent' @ joinWith ('','' @ [CHR 0x0A] @ indent') partial
              @ [CHR 0x0A] @ stepback @ ''}'')"

definition stringify :: "('n \<Rightarrow> string) \<Rightarrow> 'n json \<Rightarrow> nat \<Rightarrow> string" where
  "stringify num v space = serialize num (replicate (min space 10) CHR '' '') [] v"

subsection \<open>The regular expression of exportJSON\<close>

text \<open>
  \<^verbatim>\<open>/( {4}"timestamp": )\[\s+(\S+)\s+(\S+)\s+\]/gm\<close> is a sequence of literal pieces and
  greedy \<^verbatim>\<open>\s+\<close> and \<^verbatim>\<open>\S+\<close>; the flag of each piece says whether it is a capture group.
  The matcher tries the longest run first and backs off one character at a time.
  Strings are lists of 8-bit characters; of the characters that \<^verbatim>\<open>\s\<close> matches, these are
  tab, line feed, vertical tab, form feed, carriage return, space and no-break space.
\<close>

datatype atom = Lit string | Ws | NonWs

definition isSpace :: "char \<Rightarrow> bool" where
  "isSpace c \<longleftrightarrow>
     c \<in> set [CHR 0x09, CHR 0x0A, CHR 0x0B, CHR 0x0C, CHR 0x0D, CHR 0x20, CHR 0xA0]"

fun firstSome :: "('a \<Rightarrow> 'b option) \<Rightarrow> 'a list \<Rightarrow> 'b option" where
  "firstSome f [] = None"
| "firstSome f (x # xs) = (case f x of Some y \<Rightarrow> Some y | None \<Rightarrow> firstSome f xs)"

fun matchHere :: "(bool \<times> atom) list \<Rightarrow> string \<Rightarrow> (string list \<times> string) option" where
  "matchHere [] s = Some ([], s)"
| "matchHere ((cap, Lit l) # r) s =
     (if take (length l) s = l
      then map_option (\<lambda>(caps, rest). ((if cap then [l] else []) @ caps, rest))
             (matchHere r (drop (length l) s))
      else None)"
| "matchHere ((cap, Ws) # r) s =
     firstSome (\<lambda>n. map_option (\<lambda>(caps, rest). ((if cap then [take n s] else []) @ caps, rest))
                       (matchHere r (drop n s)))
       (rev [1..<Suc (length (takeWhile isSpace s))])"
| "matchHere ((cap, NonWs) # r) s =
     firstSome (\<lambda>n. map_option (\<lambda>(caps, rest). ((if cap then [take n s] else []) @ caps, rest))
                       (matchHere r (drop n s)))
       (rev [1..<Suc (length (takeWhile (\<lambda>c. \<not> isSpace c) s))])"

definition timestampRegex :: "(bool \<times> atom) list" where
  "timestampRegex =
     [(True, Lit (''    '' @ [CHR 0x22] @ ''timestamp'' @ [CHR 0x22] @ '': '')),
      (False, Lit ''[''), (False, Ws), (True, NonWs), (False, Ws), (True, NonWs), (False, Ws),
      (False, Lit '']'')]"

text \<open>The replacement \<^verbatim>\<open>"$1[$2 $3]"\<close>.\<close>

definition replacement :: "string list \<Rightarrow> string" where
  "replacement caps = caps ! 0 @ ''['' @ caps ! 1 @ '' '' @ caps ! 2 @ '']''"

text \<open>
  The global replace scans from the left; after a match it continues behind the matched
  text: \<open>skip\<close> counts the characters of the current match still to pass over.
\<close>

fun replaceAll :: "nat \<Rightarrow> string \<Rightarrow> string" where
  "replaceAll skip [] = []"
| "replaceAll (Suc skip) (c # cs) = replaceAll skip cs"
| "replaceAll 0 (c # cs) =
     (case matchHere timestampRegex (c # cs) of
        None \<Rightarrow> c # replaceAll 0 cs
      | Some (caps, rest) \<Rightarrow> replacement caps @ replaceAll (length cs - length rest) cs)"

subsection \<open>exportJSON\<close>

text \<open>A chunk object lists \<^verbatim>\<open>text\<close> before \<^verbatim>\<open>timestamp\<close>, as its interface does.\<close>

definition chunkJSON :: "'n Chunk \<Rightarrow> 'n json" where
  "chunkJSON c =
     JObj [(''text'', JStr (Chunk.text c)),
           (''timestamp'',
            JArr [JNum (fst (timestamp c)),
                  (case snd (timestamp c) of None \<Rightarrow> JNull | Some e \<Rightarrow> JNum e)])]"

definition exportJSON :: "('n \<Rightarrow> string) \<Rightarrow> 'n Transcript \<Rightarrow> string" where
  "exportJSON num v =
     (let chunks = currentChunks v;
          editedChunksData =
            map (\<lambda>(i, chunk). chunk\<lparr>Chunk.text := getChunkText v i\<rparr>) (enumerate 0 chunks);
          jsonData = stringify num (JArr (map chunkJSON editedChunksData)) 2
      in replaceAll 0 jsonData)"

subsection \<open>Numbers written as finite decimals\<close>

text \<open>
  \<open>Decimal m k\<close> is the number \<open>m / 10 ^ k\<close>. For the short decimals that timestamps are,
  the number-to-string conversion of the language prints the integer part, and the
  fraction without trailing zeros when there is one.
\<close>

datatype decimal = Decimal int nat

fun digits :: "nat \<Rightarrow> string" where
  "digits n =
     (if n < 10 then [''0123456789'' ! n]
      else digits (n div 10) @ [''0123456789'' ! (n mod 10)])"

fun fraction :: "nat \<Rightarrow> nat \<Rightarrow> string" where
  "fraction 0 r = []"
| "fraction (Suc k) r =
     (if r = 0 then [] else (''0123456789'' ! (r div 10 ^ k)) # fraction k (r mod 10 ^ k))"

fun decimalToString :: "decimal \<Rightarrow> string" where
  "decimalToString (Decimal m k) =
     (let a = nat \<bar>m\<bar>; r = a mod 10 ^ k
      in (if m < 0 then ''-'' else []) @ digits (a div 10 ^ k)
         @ (if r = 0 then [] else ''.'' @ fraction k r))"

section \<open>Sample inputs\<close>

definition sampleConstants :: Constants where
  "sampleConstants =
     \<lparr>defaultModel = ''whisper-base'', DEFAULT_SUBTASK = ''transcribe'',
      DEFAULT_DTYPE = ''q8'', DEFAULT_GPU = False, defaultLanguage = ''en''\<rparr>"

definition realArith :: "real arith" where
  "realArith =
     \<lparr>fadd = (\<lambda>x y. x + y), fmul = (\<lambda>x y. x * y),
      fdiv = (\<lambda>x y. x / y), sqrt2 = sqrt 2, two = 2, zero = 0, nan = 0,
      fround = (\<lambda>x. x)\<rparr>"

definition sampleItem :: "string \<Rightarrow> real ProgressItem" where
  "sampleItem f =
     \<lparr>file = f, loaded = 0, progress = 0, total = 100, name = ''whisper-base'',
      status = ''initiate''\<rparr>"

definition stereoBuffer :: "real AudioBuffer" where
  "stereoBuffer = \<lparr>frames = 2, channelData = [[1, 2], [3, 4]]\<rparr>"

definition monoBuffer :: "real AudioBuffer" where
  "monoBuffer = \<lparr>frames = 3, channelData = [[1, 2, 3]]\<rparr>"

definition surroundBuffer :: "real AudioBuffer" where
  "surroundBuffer = \<lparr>frames = 1, channelData = [[1], [2], [3]]\<rparr>"

definition helloChunks :: "decimal Chunk list" where
  "helloChunks =
     [\<lparr>Chunk.text = ''Hello'', timestamp = (Decimal 0 0, Some (Decimal 15 1))\<rparr>,
      \<lparr>Chunk.text = ''world'', timestamp = (Decimal 15 1, None)\<rparr>]"

definition helloWorld :: "decimal TranscriberData" where
  "helloWorld =
     \<lparr>TranscriberData.isBusy = False, tps = None, text = ''Helloworld'', chunks = helloChunks\<rparr>"

definition helloWorldResult :: "decimal TranscriberUpdateData" where
  "helloWorldResult =
     \<lparr>TranscriberUpdateData.text = ''Helloworld'', chunks = helloChunks, tps = Decimal 42 0\<rparr>"

definition outputShown :: "decimal Transcriber" where
  "outputShown = receive (Complete helloWorldResult) (mount sampleConstants)"

definition editedHelloWorld :: "decimal Transcript" where
  "editedHelloWorld =
     handleTextChange 1 ''World!'' (setTranscribedData (Some helloWorld) initialTranscript)"

definition readyState :: "real Transcriber" where
  "readyState = receive ModelReady (mount sampleConstants)"

definition sampleResult :: "real TranscriberUpdateData" where
  "sampleResult =
     \<lparr>TranscriberUpdateData.text = ''Hello'',
      chunks = [\<lparr>Chunk.text = ''Hello'', timestamp = (0, Some 1.5)\<rparr>],
      tps = 10\<rparr>"

definition shownState :: "real Transcriber" where
  "shownState = receive (Complete sampleResult) readyState"

definition englishOnlyState :: "real Transcriber" where
  "englishOnlyState = setModel ''whisper-tiny.en'' readyState"

definition autoLanguageState :: "real Transcriber" where
  "autoLanguageState = setLanguage ''auto'' readyState"

definition loadingState :: "real Transcriber" where
  "loadingState = receive (Initiate (sampleItem ''model.onnx'')) (mount sampleConstants)"

definition busyState :: "real Transcriber" where
  "busyState = start realArith (Some stereoBuffer) readyState"

section \<open>Properties of the controller\<close>

subsection \<open>Running setter calls\<close>

lemma run_Nil [simp]: "run [] s = s"
  by (simp add: run_def)

lemma run_Cons [simp]: "run (a # acts) s = run acts (exec a s)"
  by (simp add: run_def)

lemma run_append: "run (xs @ ys) s = run ys (run xs s)"
  by (simp add: run_def)

lemma commit_same_config:
  "Transcriber.model (run acts s) = Transcriber.model s \<Longrightarrow>
   Transcriber.dtype (run acts s) = Transcriber.dtype s \<Longrightarrow>
   Transcriber.gpu (run acts s) = Transcriber.gpu s \<Longrightarrow>
   commit acts s = run acts s"
  by (simp add: commit_def readinessResetEffect_def)

lemma onmessage_config:
  "Transcriber.model (run (onmessage msg) s) = Transcriber.model s \<and>
   Transcriber.dtype (run (onmessage msg) s) = Transcriber.dtype s \<and>
   Transcriber.gpu (run (onmessage msg) s) = Transcriber.gpu s"
  by (cases msg) simp_all

lemma receive_run: "receive msg s = run (onmessage msg) s"
  unfolding receive_def using onmessage_config [of msg s]
  by (intro commit_same_config) simp_all

lemma receiveAll_Nil [simp]: "receiveAll [] s = s"
  by (simp add: receiveAll_def)

lemma receiveAll_Cons [simp]: "receiveAll (m # ms) s = receiveAll ms (receive m s)"
  by (simp add: receiveAll_def)

lemma receiveAll_append: "receiveAll (xs @ ys) s = receiveAll ys (receiveAll xs s)"
  by (simp add: receiveAll_def)

lemmas sample_state_defs =
  readyState_def receive_run mount_def initial_def sampleConstants_def commit_def
  readinessResetEffect_def

subsection \<open>Configuration changes and readiness\<close>

text \<open>
  C1. In every controller state, giving the model, the dtype or the gpu flag a value
  different from the current one leaves \<open>isModelReady\<close> false, whatever it was before;
  setting the language or the subtask changes none of \<open>isModelReady\<close>, \<open>isBusy\<close>,
  \<open>isModelLoading\<close> and \<open>isCheckingModel\<close>.
\<close>

theorem config_change_resets_readiness:
  "(m \<noteq> Transcriber.model s \<longrightarrow> \<not> isModelReady (setModel m s)) \<and>
   (d \<noteq> Transcriber.dtype s \<longrightarrow> \<not> isModelReady (setDtype d s)) \<and>
   (g \<noteq> Transcriber.gpu s \<longrightarrow> \<not> isModelReady (setGPU g s)) \<and>
   isModelReady (setLanguage l s) = isModelReady s \<and>
   Transcriber.isBusy (setLanguage l s) = Transcriber.isBusy s \<and>
   isModelLoading (setLanguage l s) = isModelLoading s \<and>
   isCheckingModel (setLanguage l s) = isCheckingModel s \<and>
   isModelReady (setSubtask t s) = isModelReady s \<and>
   Transcriber.isBusy (setSubtask t s) = Transcriber.isBusy s \<and>
   isModelLoading (setSubtask t s) = isModelLoading s \<and>
   isCheckingModel (setSubtask t s) = isCheckingModel s"
  by (simp add: setModel_def setDtype_def setGPU_def setLanguage_def setSubtask_def
      commit_def readinessResetEffect_def)

theorem config_change_resets_readiness_witness:
  "isModelReady readyState \<and>
   ''whisper-tiny'' \<noteq> Transcriber.model readyState \<and>
   \<not> isModelReady (setModel ''whisper-tiny'' readyState) \<and>
   ''fp32'' \<noteq> Transcriber.dtype readyState \<and>
   \<not> isModelReady (setDtype ''fp32'' readyState) \<and>
   True \<noteq> Transcriber.gpu readyState \<and>
   \<not> isModelReady (setGPU True readyState) \<and>
   isModelReady (setLanguage ''sv'' readyState) \<and>
   isModelReady (setSubtask ''translate'' readyState)"
  using config_change_resets_readiness
    [of "''whisper-tiny''" readyState "''fp32''" True "''sv''" "''translate''"]
  by (simp add: sample_state_defs)

subsection \<open>Error messages\<close>

text \<open>
  C5. Handling an \<^verbatim>\<open>error\<close> message leaves \<open>isBusy\<close>, \<open>isModelLoading\<close> and
  \<open>isCheckingModel\<close> false, shows one alert whose text quotes the message of the event,
  leaves the transcript as it was and sends nothing to the worker.
\<close>

theorem error_event_clears_flags:
  \<open>\<not> Transcriber.isBusy (receive (Error m) s) \<and>
   \<not> isModelLoading (receive (Error m) s) \<and>
   \<not> isCheckingModel (receive (Error m) s) \<and>
   alerted (receive (Error m) s) =
     alerted s @ [''An error occurred: "'' @ m @ ''". Please file a bug report.''] \<and>
   transcript (receive (Error m) s) = transcript s \<and>
   posted (receive (Error m) s) = posted s\<close>
  by (simp add: receive_run errorAlertText_def)

subsection \<open>Audio mixdown\<close>

lemma wr_length [simp]: "length (wr ar out i v) = length out"
  by (simp add: wr_def)

lemma mixLoop_length [simp]: "length (mixLoop ar l r n i out) = length out"
  by (induction ar l r n i out rule: mixLoop.induct) (subst mixLoop.simps, simp)

lemma mixLoop_nth:
  "j < length out \<Longrightarrow>
   mixLoop ar l r n i out ! j =
     (if i \<le> j \<and> j < n
      then fround ar (fdiv ar (fmul ar (sqrt2 ar) (fadd ar (rd ar l j) (rd ar r j))) (two ar))
      else out ! j)"
proof (induction ar l r n i out rule: mixLoop.induct)
  case (1 ar left right n i out)
  show ?case
  proof (cases "i < n")
    case True
    have "mixLoop ar left right n i out ! j =
          mixLoop ar left right n (Suc i)
            (wr ar out i (fdiv ar (fmul ar (sqrt2 ar) (fadd ar (rd ar left i) (rd ar right i)))
               (two ar))) ! j"
      using True by (subst mixLoop.simps) simp
    also have "\<dots> =
      (if Suc i \<le> j \<and> j < n
       then fround ar (fdiv ar (fmul ar (sqrt2 ar) (fadd ar (rd ar left j) (rd ar right j))) (two ar))
       else wr ar out i (fdiv ar (fmul ar (sqrt2 ar) (fadd ar (rd ar left i) (rd ar right i)))
               (two ar)) ! j)"
      using "1.IH" [OF True] "1.prems" by simp
    finally show ?thesis
      using True "1.prems" by (cases "j = i") (auto simp: wr_def)
  next
    case False
    then show ?thesis by (subst mixLoop.simps) auto
  qed
qed

lemma wf_channel_length:
  "wf_AudioBuffer b \<Longrightarrow> k < numberOfChannels b \<Longrightarrow> length (channelData b ! k) = frames b"
  by (simp add: wf_AudioBuffer_def numberOfChannels_def list_all_length)

lemma wf_first_channel:
  "wf_AudioBuffer b \<Longrightarrow> getChannelData b 0 = Some (channelData b ! 0)"
  by (simp add: wf_AudioBuffer_def getChannelData_def numberOfChannels_def)

lemma mixdown_stereo:
  "numberOfChannels b = 2 \<Longrightarrow>
   mixdown ar b =
     Some (mixLoop ar (channelData b ! 0) (channelData b ! 1) (frames b) 0
             (replicate (length (channelData b ! 0)) (zero ar)))"
  by (simp add: mixdown_def getChannelData_def)

lemma mixdown_not_stereo:
  "wf_AudioBuffer b \<Longrightarrow> numberOfChannels b \<noteq> 2 \<Longrightarrow> mixdown ar b = Some (channelData b ! 0)"
  by (simp add: mixdown_def wf_first_channel)

lemma mixdown_defined:
  assumes "wf_AudioBuffer b"
  shows "\<exists>out. mixdown ar b = Some out \<and> length out = frames b"
proof (cases "numberOfChannels b = 2")
  case True
  then show ?thesis using assms by (simp add: mixdown_stereo wf_channel_length)
next
  case False
  moreover have "0 < numberOfChannels b"
    using assms by (simp add: wf_AudioBuffer_def numberOfChannels_def)
  ultimately show ?thesis using assms by (simp add: mixdown_not_stereo wf_channel_length)
qed

text \<open>
  C4. For every audio buffer of the Web Audio API: with one channel the mixdown is
  channel 0 itself; with two channels every output sample is
  \<^verbatim>\<open>(Math.sqrt(2) * (left[i] + right[i])) / 2\<close>, computed with the program's arithmetic
  and stored into a \<^verbatim>\<open>Float32Array\<close>; with more than two channels the mixdown is channel 0
  itself; and in every case the mixdown exists and has as many samples as the buffer has
  frames.
\<close>

theorem mixdown_channels:
  assumes "wf_AudioBuffer b"
  shows "(numberOfChannels b = 1 \<longrightarrow> mixdown ar b = Some (channelData b ! 0)) \<and>
         (numberOfChannels b = 2 \<longrightarrow>
            (\<exists>out. mixdown ar b = Some out \<and>
               (\<forall>i < frames b.
                  out ! i =
                    fround ar (fdiv ar (fmul ar (sqrt2 ar)
                      (fadd ar (channelData b ! 0 ! i) (channelData b ! 1 ! i))) (two ar))))) \<and>
         (2 < numberOfChannels b \<longrightarrow> mixdown ar b = Some (channelData b ! 0)) \<and>
         (\<exists>out. mixdown ar b = Some out \<and> length out = frames b)"
proof (intro conjI impI)
  assume "numberOfChannels b = 1"
  then show "mixdown ar b = Some (channelData b ! 0)"
    using assms by (simp add: mixdown_not_stereo)
next
  assume two: "numberOfChannels b = 2"
  have l0: "length (channelData b ! 0) = frames b" and l1: "length (channelData b ! 1) = frames b"
    using assms two by (simp_all add: wf_channel_length)
  show "\<exists>out. mixdown ar b = Some out \<and>
          (\<forall>i < frames b.
             out ! i =
               fround ar (fdiv ar (fmul ar (sqrt2 ar)
                 (fadd ar (channelData b ! 0 ! i) (channelData b ! 1 ! i))) (two ar)))"
    using two l0 l1 by (simp add: mixdown_stereo mixLoop_nth rd_def)
next
  assume "2 < numberOfChannels b"
  then show "mixdown ar b = Some (channelData b ! 0)"
    using assms by (simp add: mixdown_not_stereo)
next
  show "\<exists>out. mixdown ar b = Some out \<and> length out = frames b"
    using assms by (rule mixdown_defined)
qed

lemmas mix_eval = mixdown_def numberOfChannels_def getChannelData_def mixLoop.simps wr_def rd_def
  wf_AudioBuffer_def

theorem mixdown_channels_witness:
  "wf_AudioBuffer monoBuffer \<and> numberOfChannels monoBuffer = 1 \<and>
   mixdown realArith monoBuffer = Some [1, 2, 3] \<and>
   wf_AudioBuffer stereoBuffer \<and> numberOfChannels stereoBuffer = 2 \<and>
   mixdown realArith stereoBuffer = Some [sqrt 2 * (1 + 3) / 2, sqrt 2 * (2 + 4) / 2] \<and>
   wf_AudioBuffer surroundBuffer \<and> 2 < numberOfChannels surroundBuffer \<and>
   mixdown realArith surroundBuffer = Some [1]"
  using mixdown_channels [of monoBuffer realArith]
    mixdown_channels [of stereoBuffer realArith]
    mixdown_channels [of surroundBuffer realArith]
  by (simp add: mix_eval monoBuffer_def stereoBuffer_def surroundBuffer_def realArith_def)

subsection \<open>Error messages, at a busy state\<close>

theorem error_event_clears_flags_witness:
  \<open>Transcriber.isBusy busyState \<and>
   \<not> Transcriber.isBusy (receive (Error ''out of memory'') busyState) \<and>
   \<not> isModelLoading (receive (Error ''out of memory'') busyState) \<and>
   \<not> isCheckingModel (receive (Error ''out of memory'') busyState) \<and>
   alerted (receive (Error ''out of memory'') busyState) =
     [''An error occurred: "out of memory". Please file a bug report.''] \<and>
   transcript (receive (Error ''out of memory'') busyState) = transcript busyState \<and>
   posted (receive (Error ''out of memory'') busyState) = posted busyState\<close>
  using error_event_clears_flags [of "''out of memory''" busyState]
  by (simp add: busyState_def start_def postRequest_def mix_eval stereoBuffer_def realArith_def
      sample_state_defs)

subsection \<open>Downloading the model\<close>

lemma receive_isModelReady:
  "isModelReady (receive msg s) = (msg = ModelReady \<or> isModelReady s)"
  by (cases msg) (simp_all add: receive_run)
lemma receiveAll_not_ready:
  "\<not> isModelReady s \<Longrightarrow> ModelReady \<notin> set msgs \<Longrightarrow> \<not> isModelReady (receiveAll msgs s)"
proof (induction msgs arbitrary: s)
  case Nil
  then show ?case by simp
next
  case (Cons m msgs)
  have rest: "ModelReady \<notin> set msgs"
    using Cons.prems(2) by simp
  have m: "m \<noteq> ModelReady"
  proof
    assume "m = ModelReady"
    then have "ModelReady \<in> set (m # msgs)" by simp
    with Cons.prems(2) show False by contradiction
  qed
  have "\<not> isModelReady (receive m s)"
    using m Cons.prems(1) by (simp add: receive_isModelReady)
  then have "\<not> isModelReady (receiveAll msgs (receive m s))"
    using rest by (rule Cons.IH)
  then show ?case by simp
qed

lemma downloadModel_eq:
  "downloadModel s =
     s\<lparr>isModelReady := False,
       posted := posted s @ [DownloadModel (Transcriber.model s) (Transcriber.dtype s) (Transcriber.gpu s)]\<rparr>"
  by (simp add: downloadModel_def downloadModelRequest_def commit_def readinessResetEffect_def)

lemma readyState_ready: "isModelReady readyState"
  by (simp add: sample_state_defs)

text \<open>
  C6, as stated, fails: a \<^verbatim>\<open>ready\<close> message after \<open>downloadModel\<close> leaves \<open>isModelReady\<close>
  false.
\<close>

theorem ready_does_not_restore_readiness:
  "isModelReady readyState \<and> \<not> isModelReady (receive Ready (downloadModel readyState))"
proof -
  have "isModelReady readyState" by (simp add: sample_state_defs)
  then show ?thesis by (simp add: downloadModel_eq receive_isModelReady)
qed

text \<open>
  C6, amended. After \<open>downloadModel\<close>, \<open>isModelReady\<close> is false at once and stays false
  under every sequence of worker messages that holds no \<^verbatim>\<open>model_ready\<close> (a \<^verbatim>\<open>ready\<close>
  message included); a \<^verbatim>\<open>model_ready\<close> message makes it true in any state.
\<close>

theorem download_resets_until_model_ready:
  "\<not> isModelReady (downloadModel s) \<and>
   (ModelReady \<notin> set msgs \<longrightarrow> \<not> isModelReady (receiveAll msgs (downloadModel s))) \<and>
   isModelReady (receive ModelReady s')"
  by (simp add: receiveAll_not_ready receive_isModelReady downloadModel_eq)

theorem download_resets_until_model_ready_witness:
  "isModelReady readyState \<and>
   \<not> isModelReady (downloadModel readyState) \<and>
   ModelReady \<notin> set [Initiate (sampleItem ''model.onnx''), Progress ''model.onnx'' 50, Ready,
                        Done ''model.onnx'', ModelCheckComplete, Error ''no network''] \<and>
   \<not> isModelReady
       (receiveAll [Initiate (sampleItem ''model.onnx''), Progress ''model.onnx'' 50, Ready,
                    Done ''model.onnx'', ModelCheckComplete, Error ''no network'']
          (downloadModel readyState)) \<and>
   isModelReady (receive ModelReady (downloadModel readyState))"
  using download_resets_until_model_ready
    [of readyState "[Initiate (sampleItem ''model.onnx''), Progress ''model.onnx'' 50, Ready,
                    Done ''model.onnx'', ModelCheckComplete, Error ''no network'']"
        "downloadModel readyState"]
    readyState_ready
  by (simp add: downloadModel_eq receive_isModelReady)

subsection \<open>Starting a transcription\<close>

lemma start_None: "start ar None s = s"
  by (simp add: start_def postRequest_def commit_def readinessResetEffect_def)

lemma wf_mixdown: "wf_AudioBuffer b \<Longrightarrow> \<exists>a. mixdown ar b = Some a"
  using mixdown_defined by blast

text \<open>
  C2. \<open>start\<close> without a buffer changes nothing and sends nothing. With a buffer of the
  Web Audio API the callback ends with the one \<^verbatim>\<open>transcribe\<close> request, after setter
  calls that hold no send and that leave the transcript cleared and \<open>isBusy\<close> true; the
  state after \<open>start\<close> has the transcript cleared, \<open>isBusy\<close> true and that one request
  added to what was sent.
\<close>

theorem start_absent_or_present:
  "start ar None s = s \<and> postRequest ar s None = [] \<and>
   (wf_AudioBuffer b \<longrightarrow>
      (\<exists>pre req.
         postRequest ar s (Some b) = pre @ [PostMessage (Transcribe req)] \<and>
         (\<forall>r. PostMessage r \<notin> set pre) \<and>
         transcript (run pre s) = None \<and>
         Transcriber.isBusy (run pre s) \<and>
         posted (run pre s) = posted s \<and>
         start ar (Some b) s = exec (PostMessage (Transcribe req)) (run pre s) \<and>
         transcript (start ar (Some b) s) = None \<and>
         Transcriber.isBusy (start ar (Some b) s) \<and>
         posted (start ar (Some b) s) = posted s @ [Transcribe req]))"
proof (intro conjI impI)
  show "start ar None s = s" by (rule start_None)
  show "postRequest ar s None = []" by (simp add: postRequest_def)
next
  assume "wf_AudioBuffer b"
  then obtain a where a: "mixdown ar b = Some a" using wf_mixdown by blast
  let ?pre = "[SetTranscript None, SetIsBusy True] :: 'a Action list"
  let ?req = "transcribeMessage s a"
  have p: "postRequest ar s (Some b) = ?pre @ [PostMessage (Transcribe ?req)]"
    by (simp add: postRequest_def a)
  have st: "start ar (Some b) s = exec (PostMessage (Transcribe ?req)) (run ?pre s)"
    unfolding start_def p by (simp add: commit_def readinessResetEffect_def)
  show "\<exists>pre req.
         postRequest ar s (Some b) = pre @ [PostMessage (Transcribe req)] \<and>
         (\<forall>r. PostMessage r \<notin> set pre) \<and>
         transcript (run pre s) = None \<and>
         Transcriber.isBusy (run pre s) \<and>
         posted (run pre s) = posted s \<and>
         start ar (Some b) s = exec (PostMessage (Transcribe req)) (run pre s) \<and>
         transcript (start ar (Some b) s) = None \<and>
         Transcriber.isBusy (start ar (Some b) s) \<and>
         posted (start ar (Some b) s) = posted s @ [Transcribe req]"
    apply (rule exI [of _ ?pre], rule exI [of _ ?req])
    apply (simp only: p st)
    apply simp
    done
qed

lemma endsWith_suffix: "endsWith s t \<longleftrightarrow> suffix t s"
proof
  assume "endsWith s t"
  then have "drop (length s - length t) s = t" by (simp add: endsWith_def)
  then have "s = take (length s - length t) s @ t" by (metis append_take_drop_id)
  then show "suffix t s" by (rule suffixI)
next
  assume "suffix t s"
  then obtain zs where "s = zs @ t" by (auto simp: suffix_def)
  then show "endsWith s t" by (simp add: endsWith_def)
qed

lemma start_Some:
  "mixdown ar b = Some a \<Longrightarrow>
   start ar (Some b) s =
     s\<lparr>transcript := None, Transcriber.isBusy := True,
       posted := posted s @ [Transcribe (transcribeMessage s a)]\<rparr>"
  by (simp add: start_def postRequest_def commit_def readinessResetEffect_def)

theorem start_absent_or_present_witness:
  "transcript shownState \<noteq> None \<and> \<not> Transcriber.isBusy shownState \<and>
   start realArith None shownState = shownState \<and>
   wf_AudioBuffer stereoBuffer \<and>
   transcript (start realArith (Some stereoBuffer) shownState) = None \<and>
   Transcriber.isBusy (start realArith (Some stereoBuffer) shownState) \<and>
   posted (start realArith (Some stereoBuffer) shownState) =
     posted shownState @
     [Transcribe \<lparr>audio = [sqrt 2 * (1 + 3) / 2, sqrt 2 * (2 + 4) / 2],
                  model = ''whisper-base'', dtype = ''q8'', gpu = False,
                  subtask = Some ''transcribe'', language = Some ''en''\<rparr>]"
proof -
  have m: "mixdown realArith stereoBuffer = Some [sqrt 2 * (1 + 3) / 2, sqrt 2 * (2 + 4) / 2]"
    by (simp add: mix_eval stereoBuffer_def realArith_def)
  have s: "transcript shownState \<noteq> None" "\<not> Transcriber.isBusy shownState"
    "Transcriber.model shownState = ''whisper-base''" "Transcriber.dtype shownState = ''q8''"
    "Transcriber.gpu shownState = False" "Transcriber.subtask shownState = ''transcribe''"
    "Transcriber.language shownState = ''en''"
    by (simp_all add: shownState_def sample_state_defs)
  have w: "wf_AudioBuffer stereoBuffer"
    by (simp add: wf_AudioBuffer_def stereoBuffer_def)
  show ?thesis
    using start_absent_or_present [of realArith shownState stereoBuffer] w s
    by (simp add: start_Some [OF m] transcribeMessage_def endsWith_def)
qed

subsection \<open>The fields of the transcribe request\<close>

text \<open>
  C7. In the request that \<open>start\<close> sends for a buffer of the Web Audio API: when the model
  identifier ends in \<^verbatim>\<open>.en\<close>, subtask and language are both null; when the language is
  \<^verbatim>\<open>auto\<close>, language is null; when the identifier does not end in \<^verbatim>\<open>.en\<close>, the current
  subtask is sent, and the current language too unless it is \<^verbatim>\<open>auto\<close>.
\<close>

theorem transcribe_request_fields:
  assumes "wf_AudioBuffer b"
  shows "\<exists>req. posted (start ar (Some b) s) = posted s @ [Transcribe req] \<and>
           (suffix ''.en'' (Transcriber.model s) \<longrightarrow>
              TranscribeRequest.subtask req = None \<and> TranscribeRequest.language req = None) \<and>
           (Transcriber.language s = ''auto'' \<longrightarrow> TranscribeRequest.language req = None) \<and>
           (\<not> suffix ''.en'' (Transcriber.model s) \<longrightarrow>
              TranscribeRequest.subtask req = Some (Transcriber.subtask s)) \<and>
           (\<not> suffix ''.en'' (Transcriber.model s) \<and> Transcriber.language s \<noteq> ''auto'' \<longrightarrow>
              TranscribeRequest.language req = Some (Transcriber.language s))"
proof -
  from assms obtain a where a: "mixdown ar b = Some a" using wf_mixdown by blast
  show ?thesis
    by (rule exI [of _ "transcribeMessage s a"])
      (simp add: start_Some [OF a] transcribeMessage_def endsWith_suffix)
qed

theorem transcribe_request_fields_witness:
  "wf_AudioBuffer monoBuffer \<and>
   suffix ''.en'' (Transcriber.model englishOnlyState) \<and>
   posted (start realArith (Some monoBuffer) englishOnlyState) =
     posted englishOnlyState @
     [Transcribe \<lparr>audio = [1, 2, 3], model = ''whisper-tiny.en'', dtype = ''q8'', gpu = False,
                  subtask = None, language = None\<rparr>] \<and>
   \<not> suffix ''.en'' (Transcriber.model autoLanguageState) \<and>
   Transcriber.language autoLanguageState = ''auto'' \<and>
   posted (start realArith (Some monoBuffer) autoLanguageState) =
     posted autoLanguageState @
     [Transcribe \<lparr>audio = [1, 2, 3], model = ''whisper-base'', dtype = ''q8'', gpu = False,
                  subtask = Some ''transcribe'', language = None\<rparr>] \<and>
   \<not> suffix ''.en'' (Transcriber.model readyState) \<and>
   Transcriber.language readyState \<noteq> ''auto'' \<and>
   posted (start realArith (Some monoBuffer) readyState) =
     posted readyState @
     [Transcribe \<lparr>audio = [1, 2, 3], model = ''whisper-base'', dtype = ''q8'', gpu = False,
                  subtask = Some ''transcribe'', language = Some ''en''\<rparr>]"
proof -
  have m: "mixdown realArith monoBuffer = Some [1, 2, 3]"
    by (simp add: mix_eval monoBuffer_def)
  have w: "wf_AudioBuffer monoBuffer"
    by (simp add: wf_AudioBuffer_def monoBuffer_def)
  have e: "Transcriber.model englishOnlyState = ''whisper-tiny.en''"
    "Transcriber.dtype englishOnlyState = ''q8''" "Transcriber.gpu englishOnlyState = False"
    by (simp_all add: englishOnlyState_def setModel_def sample_state_defs)
  have a: "Transcriber.model autoLanguageState = ''whisper-base''"
    "Transcriber.dtype autoLanguageState = ''q8''" "Transcriber.gpu autoLanguageState = False"
    "Transcriber.subtask autoLanguageState = ''transcribe''"
    "Transcriber.language autoLanguageState = ''auto''"
    by (simp_all add: autoLanguageState_def setLanguage_def sample_state_defs)
  have r: "Transcriber.model readyState = ''whisper-base''"
    "Transcriber.dtype readyState = ''q8''" "Transcriber.gpu readyState = False"
    "Transcriber.subtask readyState = ''transcribe''"
    "Transcriber.language readyState = ''en''"
    by (simp_all add: sample_state_defs)
  show ?thesis
    using transcribe_request_fields [OF w, of realArith englishOnlyState]
      transcribe_request_fields [OF w, of realArith autoLanguageState]
      transcribe_request_fields [OF w, of realArith readyState]
    by (simp add: w e a r start_Some [OF m] transcribeMessage_def endsWith_suffix [symmetric]
        endsWith_def)
qed

subsection \<open>The progress list\<close>

lemma receive_progressItems:
  "progressItems (receive msg s) =
     (case msg of
        Progress f p \<Rightarrow> map (\<lambda>item. if file item = f then item\<lparr>progress := p\<rparr> else item)
                          (progressItems s)
      | Initiate item \<Rightarrow> progressItems s @ [item]
      | Done f \<Rightarrow> filter (\<lambda>item. file item \<noteq> f) (progressItems s)
      | _ \<Rightarrow> progressItems s)"
  by (cases msg) (simp_all add: receive_run)

lemma files_progress:
  "map file (map (\<lambda>item. if file item = f then item\<lparr>progress := p\<rparr> else item) xs) = map file xs"
  by (induction xs) simp_all

lemma files_receive:
  "files (receive msg s) =
     (case msg of
        Initiate item \<Rightarrow> files s @ [file item]
      | Done f \<Rightarrow> filter (\<lambda>g. g \<noteq> f) (files s)
      | _ \<Rightarrow> files s)"
  by (cases msg) (simp_all add: files_def receive_progressItems files_progress filter_map comp_def)

lemma fileCount_files: "fileCount f s = length (filter (\<lambda>g. g = f) (files s))"
  by (simp add: fileCount_def files_def filter_map comp_def)

lemma fileCount_zero: "fileCount f s = 0 \<longleftrightarrow> f \<notin> set (files s)"
  by (auto simp: fileCount_files filter_empty_conv)

lemma fileCount_untouched:
  "\<not> opensOrCloses f msg \<Longrightarrow> fileCount f (receive msg s) = fileCount f s"
proof (cases msg)
  case (Done g)
  assume "\<not> opensOrCloses f msg"
  with Done have "g \<noteq> f" by simp
  then have "filter (\<lambda>h. h = f) (filter (\<lambda>h. h \<noteq> g) (files s)) = filter (\<lambda>h. h = f) (files s)"
    by (induction "files s") (auto intro: filter_cong)
  then show ?thesis using Done by (simp add: fileCount_files files_receive)
qed (simp_all add: fileCount_files files_receive)

lemma fileCount_receiveAll:
  "list_all (\<lambda>msg. \<not> opensOrCloses f msg) msgs \<Longrightarrow>
   fileCount f (receiveAll msgs s) = fileCount f s"
  by (induction msgs arbitrary: s) (simp_all add: fileCount_untouched)

lemma fileCount_initiate:
  "file item = f \<Longrightarrow> fileCount f (receive (Initiate item) s) = Suc (fileCount f s)"
  by (simp add: fileCount_files files_receive)

lemma fileCount_done: "fileCount f (receive (Done f) s) = 0"
  by (simp add: fileCount_zero files_receive)

lemma progress_miss:
  "f \<notin> set (files s) \<Longrightarrow> progressItems (receive (Progress f p) s) = progressItems s"
proof -
  assume "f \<notin> set (files s)"
  then have "\<And>item. item \<in> set (progressItems s) \<Longrightarrow> file item \<noteq> f"
    by (auto simp: files_def)
  then have "map (\<lambda>item. if file item = f then item\<lparr>progress := p\<rparr> else item) (progressItems s)
             = progressItems s"
    by (intro map_idI) simp
  then show ?thesis by (simp add: receive_progressItems)
qed

lemma done_miss:
  "f \<notin> set (files s) \<Longrightarrow> progressItems (receive (Done f) s) = progressItems s"
proof -
  assume "f \<notin> set (files s)"
  then have "\<And>item. item \<in> set (progressItems s) \<Longrightarrow> file item \<noteq> f"
    by (auto simp: files_def)
  then have "filter (\<lambda>item. file item \<noteq> f) (progressItems s) = progressItems s"
    by (simp add: filter_id_conv)
  then show ?thesis by (simp add: receive_progressItems)
qed

lemma distinct_receive:
  "distinct (files s) \<Longrightarrow> initiatesFresh msg s \<Longrightarrow> distinct (files (receive msg s))"
  by (cases msg) (simp_all add: files_receive)

lemma distinct_receiveAll:
  "distinct (files s) \<Longrightarrow> freshInitiates msgs s \<Longrightarrow> distinct (files (receiveAll msgs s))"
  by (induction msgs arbitrary: s) (simp_all add: distinct_receive)

text \<open>
  C3, as stated, fails: the \<^verbatim>\<open>initiate\<close> case appends without looking for the key, so two
  \<^verbatim>\<open>initiate\<close> messages for one file leave two items with that key.
\<close>

theorem duplicate_initiate_counterexample:
  "\<not> distinct (files (receiveAll [Initiate (sampleItem ''model.onnx''),
                                    Initiate (sampleItem ''model.onnx'')]
                          (mount sampleConstants))) \<and>
   fileCount ''model.onnx''
     (receiveAll [Initiate (sampleItem ''model.onnx''), Initiate (sampleItem ''model.onnx'')]
        (mount sampleConstants)) = 2"
  by (simp add: files_receive fileCount_files sampleItem_def)
    (simp add: files_def mount_def initial_def commit_def readinessResetEffect_def)

text \<open>
  C3, amended. From a state with no item for the key \<open>f\<close>, after \<^verbatim>\<open>initiate\<close> for \<open>f\<close> and
  any further messages that are neither an \<^verbatim>\<open>initiate\<close> nor a \<^verbatim>\<open>done\<close> for \<open>f\<close>
  (its \<^verbatim>\<open>progress\<close> messages among them) there is exactly one item with key \<open>f\<close>, and
  after the \<^verbatim>\<open>done\<close> for \<open>f\<close> there is none. A \<^verbatim>\<open>progress\<close> or \<^verbatim>\<open>done\<close> for a key
  without an item leaves the list as it is. The keys stay pairwise distinct along every
  message sequence in which no \<^verbatim>\<open>initiate\<close> arrives for a key that still has an item.
\<close>

theorem progress_tracker_lifecycle:
  "(file item = f \<and> f \<notin> set (files s) \<and> list_all (\<lambda>msg. \<not> opensOrCloses f msg) msgs \<longrightarrow>
      fileCount f (receiveAll (Initiate item # msgs) s) = 1 \<and>
      fileCount f (receiveAll (Initiate item # msgs @ [Done f]) s) = 0) \<and>
   (g \<notin> set (files s') \<longrightarrow>
      progressItems (receive (Progress g p) s') = progressItems s' \<and>
      progressItems (receive (Done g) s') = progressItems s') \<and>
   (distinct (files s'') \<and> freshInitiates msgs' s'' \<longrightarrow>
      distinct (files (receiveAll msgs' s'')))"
proof (intro conjI impI)
  assume a: "file item = f \<and> f \<notin> set (files s) \<and> list_all (\<lambda>msg. \<not> opensOrCloses f msg) msgs"
  then have one: "fileCount f (receive (Initiate item) s) = 1"
    by (simp add: fileCount_initiate fileCount_zero [symmetric])
  show "fileCount f (receiveAll (Initiate item # msgs) s) = 1"
    using a one by (simp add: fileCount_receiveAll)
  show "fileCount f (receiveAll (Initiate item # msgs @ [Done f]) s) = 0"
    by (simp add: receiveAll_append fileCount_done)
next
  assume "g \<notin> set (files s')"
  then show "progressItems (receive (Progress g p) s') = progressItems s'"
    and "progressItems (receive (Done g) s') = progressItems s'"
    by (simp_all add: progress_miss done_miss)
next
  assume "distinct (files s'') \<and> freshInitiates msgs' s''"
  then show "distinct (files (receiveAll msgs' s''))"
    by (simp add: distinct_receiveAll)
qed

lemma files_mount: "files (mount c) = []"
  by (simp add: files_def mount_def initial_def commit_def readinessResetEffect_def)

theorem progress_tracker_lifecycle_witness:
  "file (sampleItem ''model.onnx'' :: real ProgressItem) = ''model.onnx'' \<and>
   ''model.onnx'' \<notin> set (files (mount sampleConstants :: real Transcriber)) \<and>
   list_all (\<lambda>msg. \<not> opensOrCloses ''model.onnx'' msg)
     [Progress ''model.onnx'' 50, Initiate (sampleItem ''config.json''), Done ''config.json'',
      Progress ''model.onnx'' 100] \<and>
   fileCount ''model.onnx''
     (receiveAll (Initiate (sampleItem ''model.onnx'') #
                  [Progress ''model.onnx'' 50, Initiate (sampleItem ''config.json''),
                   Done ''config.json'', Progress ''model.onnx'' 100])
        (mount sampleConstants)) = 1 \<and>
   fileCount ''model.onnx''
     (receiveAll (Initiate (sampleItem ''model.onnx'') #
                  [Progress ''model.onnx'' 50, Initiate (sampleItem ''config.json''),
                   Done ''config.json'', Progress ''model.onnx'' 100] @ [Done ''model.onnx''])
        (mount sampleConstants)) = 0 \<and>
   ''config.json'' \<notin> set (files loadingState) \<and>
   progressItems (receive (Progress ''config.json'' 10) loadingState) = progressItems loadingState \<and>
   progressItems (receive (Done ''config.json'') loadingState) = progressItems loadingState \<and>
   distinct (files loadingState) \<and>
   freshInitiates [Initiate (sampleItem ''config.json''), Done ''model.onnx'',
                   Initiate (sampleItem ''model.onnx'')] loadingState \<and>
   distinct (files (receiveAll [Initiate (sampleItem ''config.json''), Done ''model.onnx'',
                                Initiate (sampleItem ''model.onnx'')] loadingState))"
proof -
  have f: "files loadingState = [''model.onnx'']"
    by (simp add: loadingState_def files_receive files_mount sampleItem_def)
  show ?thesis
    using progress_tracker_lifecycle
      [of "sampleItem ''model.onnx''" "''model.onnx''" "mount sampleConstants"
          "[Progress ''model.onnx'' 50, Initiate (sampleItem ''config.json''),
            Done ''config.json'', Progress ''model.onnx'' 100]"
          "''config.json''" loadingState 10 loadingState
          "[Initiate (sampleItem ''config.json''), Done ''model.onnx'',
            Initiate (sampleItem ''model.onnx'')]"]
    by (simp add: f files_mount files_receive sampleItem_def)
qed

section \<open>Properties of the transcript component\<close>

lemma fold_enumerate_overlay:
  "fold (\<lambda>(index, chunk) m. m(index \<mapsto> Chunk.text chunk)) (enumerate n cs) m =
     (\<lambda>i. if n \<le> i \<and> i < n + length cs then Some (Chunk.text (cs ! (i - n))) else m i)"
proof (induction cs arbitrary: n m)
  case Nil
  show ?case by (rule ext) auto
next
  case (Cons c cs)
  have "fold (\<lambda>(index, chunk) m. m(index \<mapsto> Chunk.text chunk)) (enumerate n (c # cs)) m =
        fold (\<lambda>(index, chunk) m. m(index \<mapsto> Chunk.text chunk)) (enumerate (Suc n) cs)
          (m(n \<mapsto> Chunk.text c))"
    by simp
  also have "\<dots> =
        (\<lambda>i. if Suc n \<le> i \<and> i < Suc n + length cs then Some (Chunk.text (cs ! (i - Suc n)))
              else (m(n \<mapsto> Chunk.text c)) i)"
    by (rule Cons.IH)
  also have "\<dots> =
        (\<lambda>i. if n \<le> i \<and> i < n + length (c # cs) then Some (Chunk.text ((c # cs) ! (i - n)))
              else m i)"
    by (rule ext) (auto simp: nth_Cons' not_less_eq_eq)
  finally show ?case .
qed

lemma initialEditedChunks_apply:
  "initialEditedChunks cs i = (if i < length cs then Some (Chunk.text (cs ! i)) else None)"
  by (simp add: initialEditedChunks_def fold_enumerate_overlay)

lemma dom_initialEditedChunks: "dom (initialEditedChunks cs) = {..<length cs}"
  by (auto simp: dom_def initialEditedChunks_apply)

text \<open>
  C8, as stated, fails: \<open>onInputChange\<close> sets the controller's output to undefined; the
  component then has no chunk list, and the entries of the previous output are still in
  \<^verbatim>\<open>editedChunks\<close>, since the body of the effect is guarded by
  \<^verbatim>\<open>if (transcribedData?.chunks)\<close>.
\<close>

theorem stale_overlay_counterexample:
  "transcript outputShown \<noteq> None \<and>
   transcript (onInputChange outputShown) = None \<and>
   overlayValid (setTranscribedData (transcript outputShown) initialTranscript) \<and>
   \<not> overlayValid
       (setTranscribedData (transcript (onInputChange outputShown))
          (setTranscribedData (transcript outputShown) initialTranscript))"
proof -
  have shown: "transcript outputShown =
      Some \<lparr>TranscriberData.isBusy = False, tps = Some (Decimal 42 0), text = ''Helloworld'',
            chunks = helloChunks\<rparr>"
    by (simp add: outputShown_def receive_run helloWorldResult_def)
  have cleared: "transcript (onInputChange outputShown) = None"
    by (simp add: onInputChange_def commit_def readinessResetEffect_def)
  have "0 \<in> dom (editedChunks
          (setTranscribedData None (setTranscribedData (transcript outputShown) initialTranscript)))"
    by (simp add: shown setTranscribedData_def overlayResetEffect_def dom_initialEditedChunks
        helloChunks_def)
  moreover have
    "currentChunks
       (setTranscribedData None (setTranscribedData (transcript outputShown) initialTranscript))
       = []"
    by (simp add: currentChunks_def setTranscribedData_def nullish_def)
  ultimately have
    "\<not> overlayValid
        (setTranscribedData None (setTranscribedData (transcript outputShown) initialTranscript))"
    unfolding overlayValid_def by fastforce
  moreover have "overlayValid (setTranscribedData (transcript outputShown) initialTranscript)"
    by (simp add: shown overlayValid_def setTranscribedData_def overlayResetEffect_def
        dom_initialEditedChunks currentChunks_def nullish_def)
  ultimately show ?thesis
    by (simp add: shown cleared)
qed

text \<open>
  C8, amended. Installing an output resets the edits: every chunk of the new list reads
  as its original text and counts as not edited, and every index with an edit is an
  index of the new list. Editing a chunk of the current list keeps every index with an
  edit inside the current list. Clearing the input sets the output to undefined, and an
  undefined output leaves the edits as they were.
\<close>

theorem overlay_reset_and_validity:
  "(\<forall>i < length (TranscriberData.chunks d).
      getChunkText (setTranscribedData (Some d) v) i = Chunk.text (TranscriberData.chunks d ! i) \<and>
      \<not> isChunkEdited (setTranscribedData (Some d) v) i) \<and>
   overlayValid (setTranscribedData (Some d) v) \<and>
   (overlayValid v' \<and> j < length (currentChunks v') \<longrightarrow>
      overlayValid (handleTextChange j t v')) \<and>
   transcript (onInputChange s) = None \<and>
   editedChunks (setTranscribedData None v'') = editedChunks v''"
proof (intro conjI allI impI)
  fix i assume i: "i < length (TranscriberData.chunks d)"
  show "getChunkText (setTranscribedData (Some d) v) i = Chunk.text (TranscriberData.chunks d ! i)"
    using i by (simp add: getChunkText_def setTranscribedData_def overlayResetEffect_def
        initialEditedChunks_apply nullish_def)
  show "\<not> isChunkEdited (setTranscribedData (Some d) v) i"
    using i by (simp add: isChunkEdited_def setTranscribedData_def overlayResetEffect_def
        initialEditedChunks_apply nullish_def chunkAt_def)
next
  show "overlayValid (setTranscribedData (Some d) v)"
    by (simp add: overlayValid_def setTranscribedData_def overlayResetEffect_def
        dom_initialEditedChunks currentChunks_def nullish_def)
next
  assume "overlayValid v' \<and> j < length (currentChunks v')"
  then show "overlayValid (handleTextChange j t v')"
    by (simp add: overlayValid_def handleTextChange_def currentChunks_def)
next
  show "transcript (onInputChange s) = None"
    by (simp add: onInputChange_def commit_def readinessResetEffect_def)
next
  show "editedChunks (setTranscribedData None v'') = editedChunks v''"
    by (simp add: setTranscribedData_def overlayResetEffect_def)
qed

subsection \<open>Evaluating the sample transcript\<close>

lemmas transcript_eval =
  editedHelloWorld_def helloWorld_def helloChunks_def initialTranscript_def setTranscribedData_def
  handleTextChange_def overlayResetEffect_def initialEditedChunks_apply getChunkText_def
  isChunkEdited_def chunkAt_def nullish_def currentChunks_def

theorem overlay_reset_and_validity_witness:
  "(1::nat) < length (TranscriberData.chunks helloWorld) \<and>
   getChunkText editedHelloWorld 1 = ''World!'' \<and>
   getChunkText (setTranscribedData (Some helloWorld) editedHelloWorld) 1 = ''world'' \<and>
   \<not> isChunkEdited (setTranscribedData (Some helloWorld) editedHelloWorld) 1 \<and>
   overlayValid (setTranscribedData (Some helloWorld) editedHelloWorld) \<and>
   overlayValid (setTranscribedData (Some helloWorld) initialTranscript) \<and>
   1 < length (currentChunks (setTranscribedData (Some helloWorld) initialTranscript)) \<and>
   overlayValid editedHelloWorld \<and>
   transcript (onInputChange outputShown) = None \<and>
   editedChunks (setTranscribedData None editedHelloWorld) 1 = Some ''World!''"
proof -
  have len: "length (TranscriberData.chunks helloWorld) = 2"
    by (simp add: helloWorld_def helloChunks_def)
  have cur: "length (currentChunks (setTranscribedData (Some helloWorld) initialTranscript)) = 2"
    by (simp add: transcript_eval)
  have T1: "overlayValid (setTranscribedData (Some helloWorld) initialTranscript)"
    using overlay_reset_and_validity
      [of helloWorld initialTranscript "setTranscribedData (Some helloWorld) initialTranscript"
          1 "''World!''" outputShown editedHelloWorld]
    by simp
  show ?thesis
    using overlay_reset_and_validity
      [of helloWorld editedHelloWorld "setTranscribedData (Some helloWorld) initialTranscript"
          1 "''World!''" outputShown editedHelloWorld] T1
    by (simp add: len cur) (simp add: transcript_eval)
qed

text \<open>
  C10. For every index, \<open>getChunkText\<close> is the edit when there is one, else the text of
  the chunk when there is one, else the empty string; where there is neither an edit
  nor a chunk, \<open>getChunkText\<close> is empty and \<open>isChunkEdited\<close> is false. Both functions are
  total: the optional chaining of the source makes every out-of-range read a value.
\<close>

theorem chunk_text_total:
  "getChunkText v i =
     (case editedChunks v i of
        Some t \<Rightarrow> t
      | None \<Rightarrow>
          (case transcribedData v of
             None \<Rightarrow> []
           | Some d \<Rightarrow>
               if i < length (TranscriberData.chunks d)
               then Chunk.text (TranscriberData.chunks d ! i) else [])) \<and>
   (editedChunks v i = None \<and> length (currentChunks v) \<le> i \<longrightarrow>
      getChunkText v i = [] \<and> \<not> isChunkEdited v i)"
  by (auto simp: getChunkText_def isChunkEdited_def chunkAt_def nullish_def currentChunks_def
      split: option.splits)

theorem chunk_text_total_witness:
  "editedChunks editedHelloWorld 5 = None \<and>
   length (currentChunks editedHelloWorld) \<le> 5 \<and>
   getChunkText editedHelloWorld 5 = [] \<and>
   \<not> isChunkEdited editedHelloWorld 5 \<and>
   getChunkText editedHelloWorld 0 = ''Hello'' \<and>
   getChunkText editedHelloWorld 1 = ''World!'' \<and>
   getChunkText (initialTranscript :: decimal Transcript) 0 = []"
  using chunk_text_total [of editedHelloWorld 5] chunk_text_total [of editedHelloWorld 0]
    chunk_text_total [of editedHelloWorld 1]
    chunk_text_total [of "initialTranscript :: decimal Transcript" 0]
  by (simp add: transcript_eval)

text \<open>
  C9, as stated, fails: for the two chunks with the second one edited to \<^verbatim>\<open>World!\<close>, the
  export holds no \<^verbatim>\<open>[1.5 1.5]\<close>; the second timestamp is printed as \<^verbatim>\<open>[1.5, null]\<close>.
\<close>

theorem json_export_keeps_null_counterexample:
  \<open>\<not> sublist ''[1.5 1.5]'' (exportJSON decimalToString editedHelloWorld) \<and>
   sublist ''"timestamp": [1.5, null]'' (exportJSON decimalToString editedHelloWorld)\<close>
  by code_simp

text \<open>
  C9, amended. For that input the export is the array printed with two spaces of
  indentation, each object with its \<^verbatim>\<open>text\<close> and then its \<^verbatim>\<open>timestamp\<close>, the timestamp
  array on one line with its comma kept and an absent end printed as \<^verbatim>\<open>null\<close>.
\<close>

theorem json_export_scenario:
  \<open>exportJSON decimalToString editedHelloWorld =
   ''[\<newline>  {\<newline>    "text": "Hello",\<newline>    "timestamp": [0, 1.5]\<newline>  },\<newline>  {\<newline>    "text": "World!",\<newline>    "timestamp": [1.5, null]\<newline>  }\<newline>]''\<close>
  by code_simp

end
